theory Spec2Isabelle
  imports Complex_Main
begin

section \<open>JavaScript values held by the backup subsystem\<close>

text \<open>
  The service keeps every collection in \<^verbatim>\<open>localStorage\<close> as JSON text and reads restore
  documents with \<^verbatim>\<open>JSON.parse\<close>, whose result has type \<^verbatim>\<open>any\<close>. The model therefore
  works on untyped JSON values. The JavaScript value \<^verbatim>\<open>undefined\<close> is \<open>None\<close> of
  \<open>json option\<close>. An object is the list of its own properties, each key once.

  A number is represented by the text JavaScript prints for it (\<^verbatim>\<open>String(n)\<close>), one text
  for each value, both zeros printing as \<^verbatim>\<open>0\<close>: the code only tests a number for zero,
  compares it with zero and prints it. A string is its well-formed UTF-8 byte sequence
  (a lone surrogate as its three bytes); the accented letters of the Portuguese messages
  are written as their two bytes.
\<close>

type_synonym number = string

datatype json =
    JNull
  | JBool bool
  | JNum number
  | JStr string
  | JArr "json list"
  | JObj "(string \<times> json) list"

datatype error = SyntaxError | TypeError | UploadFailed string | Rejected

text \<open>Truthiness, as \<^verbatim>\<open>!x\<close> and \<^verbatim>\<open>x ? a : b\<close> test it.\<close>

fun truthy :: "json option \<Rightarrow> bool" where
  "truthy None = False"
| "truthy (Some JNull) = False"
| "truthy (Some (JBool b)) = b"
| "truthy (Some (JNum n)) = (n \<noteq> ''0'')"
| "truthy (Some (JStr s)) = (s \<noteq> [])"
| "truthy (Some (JArr xs)) = True"
| "truthy (Some (JObj kvs)) = True"

text \<open>Decimal text of a count and of an integral time value.\<close>

definition digit :: "nat \<Rightarrow> char" where
  "digit n = ''0123456789'' ! n"

fun showNat :: "nat \<Rightarrow> string" where
  "showNat n = (if n < 10 then [digit n] else showNat (n div 10) @ [digit (n mod 10)])"

declare showNat.simps [simp del]

definition showInt :: "int \<Rightarrow> string" where
  "showInt i = (if i < 0 then CHR ''-'' # showNat (nat (- i)) else showNat (nat i))"

text \<open>
  The code points of a string, each with its bytes: the lead byte tells how many bytes
  follow. \<^verbatim>\<open>s.length\<close> counts UTF-16 units, two for a code point of four bytes and one
  for every other.
\<close>

definition followers :: "char \<Rightarrow> nat" where
  "followers c =
     (let b = (of_char c :: nat)
      in if b < 192 then 0 else if b < 224 then 1 else if b < 240 then 2 else 3)"

fun codePoints :: "string \<Rightarrow> string list" where
  "codePoints [] = []"
| "codePoints (c # cs) = (c # take (followers c) cs) # codePoints (drop (followers c) cs)"

definition utf16Length :: "string \<Rightarrow> nat" where
  "utf16Length s = sum_list (map (\<lambda>cp. if length cp = 4 then 2 else 1) (codePoints s))"

text \<open>
  Reading the property \<open>k\<close> of a value that is neither \<^verbatim>\<open>null\<close> nor \<^verbatim>\<open>undefined\<close>.
  The names the code reads are fixed identifiers; of the built-in properties only
  \<^verbatim>\<open>length\<close> is among them.
\<close>

fun member :: "json \<Rightarrow> string \<Rightarrow> json option" where
  "member (JObj kvs) k = map_of kvs k"
| "member (JArr xs) k = (if k = ''length'' then Some (JNum (showNat (length xs))) else None)"
| "member (JStr s) k = (if k = ''length'' then Some (JNum (showNat (utf16Length s))) else None)"
| "member v k = None"

text \<open>\<^verbatim>\<open>v.k\<close>: a \<^verbatim>\<open>TypeError\<close> on \<^verbatim>\<open>null\<close> and \<^verbatim>\<open>undefined\<close>.\<close>

fun getProp :: "json option \<Rightarrow> string \<Rightarrow> error + json option" where
  "getProp None k = Inl TypeError"
| "getProp (Some JNull) k = Inl TypeError"
| "getProp (Some v) k = Inr (member v k)"

text \<open>\<^verbatim>\<open>v?.k\<close>: \<^verbatim>\<open>undefined\<close> on \<^verbatim>\<open>null\<close> and \<^verbatim>\<open>undefined\<close>.\<close>

fun optProp :: "json option \<Rightarrow> string \<Rightarrow> json option" where
  "optProp None k = None"
| "optProp (Some JNull) k = None"
| "optProp (Some v) k = member v k"

text \<open>
  The elements \<^verbatim>\<open>...v\<close> spreads into an array literal: those of an array, the code
  points of a string, and a \<^verbatim>\<open>TypeError\<close> for every value that is not iterable.
\<close>

fun spread :: "json \<Rightarrow> error + json list" where
  "spread (JArr xs) = Inr xs"
| "spread (JStr s) = Inr (map JStr (codePoints s))"
| "spread v = Inl TypeError"

text \<open>
  The text a template literal \<^verbatim>\<open>${v}\<close> inserts. An array joins the texts of its elements
  with commas, \<^verbatim>\<open>null\<close> elements giving the empty text. An object without a key
  \<^verbatim>\<open>toString\<close> of its own inherits the method that answers \<^verbatim>\<open>[object Object]\<close>; with such
  a key, whose value out of \<^verbatim>\<open>JSON.parse\<close> is never a function, the conversion finds no
  method that returns a primitive and raises a \<^verbatim>\<open>TypeError\<close>.
\<close>

fun joinWith :: "string \<Rightarrow> string list \<Rightarrow> string" where
  "joinWith sep [] = []"
| "joinWith sep [x] = x"
| "joinWith sep (x # y # ys) = x @ sep @ joinWith sep (y # ys)"

fun sequence :: "(error + 'a) list \<Rightarrow> error + 'a list" where
  "sequence [] = Inr []"
| "sequence (Inl e # rs) = Inl e"
| "sequence (Inr x # rs) = (case sequence rs of Inl e \<Rightarrow> Inl e | Inr xs \<Rightarrow> Inr (x # xs))"

fun toStr :: "json \<Rightarrow> error + string" where
  "toStr JNull = Inr ''null''"
| "toStr (JBool b) = Inr (if b then ''true'' else ''false'')"
| "toStr (JNum n) = Inr n"
| "toStr (JStr s) = Inr s"
| "toStr (JArr xs) =
     (case sequence (map (\<lambda>x. if x = JNull then Inr [] else toStr x) xs) of
        Inl e \<Rightarrow> Inl e
      | Inr texts \<Rightarrow> Inr (joinWith '','' texts))"
| "toStr (JObj kvs) =
     (if map_of kvs ''toString'' = None then Inr ''[object Object]'' else Inl TypeError)"

definition template :: "json option \<Rightarrow> error + string" where
  "template v = (case v of None \<Rightarrow> Inr ''undefined'' | Some j \<Rightarrow> toStr j)"

section \<open>Text and the key-value store\<close>

text \<open>
  \<^verbatim>\<open>JSON.parse\<close> and \<^verbatim>\<open>JSON.stringify\<close> are built-ins. A text is represented by what
  \<^verbatim>\<open>JSON.parse\<close> makes of it: \<open>Json v\<close> is a text that parses to \<open>v\<close> (what
  \<^verbatim>\<open>JSON.stringify\<close> writes for \<open>v\<close>), \<open>NotJson s\<close> is the text \<open>s\<close> on which
  \<^verbatim>\<open>JSON.parse\<close> raises a \<^verbatim>\<open>SyntaxError\<close>; the empty text is \<open>NotJson []\<close>.
\<close>

datatype rawtext = Json json | NotJson string

definition JSON_parse :: "rawtext \<Rightarrow> error + json" where
  "JSON_parse t = (case t of Json v \<Rightarrow> Inr v | NotJson s \<Rightarrow> Inl SyntaxError)"

text \<open>
  \<^verbatim>\<open>JSON.stringify(undefined)\<close> is \<^verbatim>\<open>undefined\<close>, which \<^verbatim>\<open>setItem\<close> stores as the
  nine characters \<^verbatim>\<open>undefined\<close>.
\<close>

definition JSON_stringify :: "json option \<Rightarrow> rawtext" where
  "JSON_stringify v = (case v of None \<Rightarrow> NotJson ''undefined'' | Some j \<Rightarrow> Json j)"

definition nonEmpty :: "rawtext \<Rightarrow> bool" where
  "nonEmpty t = (t \<noteq> NotJson [])"

text \<open>
  \<^verbatim>\<open>localStorage\<close>: a map from keys to texts. The storage quota is not modelled, so
  \<^verbatim>\<open>setItem\<close> always stores and the \<^verbatim>\<open>catch\<close> of \<open>set\<close> is never entered.
\<close>

type_synonym storage = "string \<Rightarrow> rawtext option"

definition MATERIALS :: string where "MATERIALS = ''sentinela_materials''"
definition PERSONNEL :: string where "PERSONNEL = ''sentinela_personnel''"
definition CAUTELAS :: string where "CAUTELAS = ''sentinela_cautelas''"
definition LOGS :: string where "LOGS = ''sentinela_logs''"
definition SETTINGS :: string where "SETTINGS = ''sentinela_settings''"

text \<open>
  \<open>get\<close>: the default when the item is missing or empty (\<^verbatim>\<open>item ? ... : defaultValue\<close>) and
  when \<^verbatim>\<open>JSON.parse\<close> raises (the \<^verbatim>\<open>catch\<close>); the parsed value otherwise.
\<close>

definition get_item :: "string \<Rightarrow> json \<Rightarrow> storage \<Rightarrow> json" where
  "get_item key defaultValue ls =
     (case ls key of
        None \<Rightarrow> defaultValue
      | Some item \<Rightarrow>
          (if nonEmpty item
           then (case JSON_parse item of Inr v \<Rightarrow> v | Inl e \<Rightarrow> defaultValue)
           else defaultValue))"

definition set_item :: "string \<Rightarrow> json option \<Rightarrow> storage \<Rightarrow> storage" where
  "set_item key v ls = ls(key \<mapsto> JSON_stringify v)"

definition NEVER :: string where "NEVER = ''never''"
definition ON_BOOT :: string where "ON_BOOT = ''on_boot''"
definition DAILY :: string where "DAILY = ''daily''"
definition WEEKLY :: string where "WEEKLY = ''weekly''"
definition MONTHLY :: string where "MONTHLY = ''monthly''"

definition defaultSettings :: json where
  "defaultSettings = JObj
     [(''institutionName'', JStr (''Pol'' @ [CHR 0xC3, CHR 0xAD] @ ''cia Militar'')),
      (''theme'', JStr ''light''),
      (''admins'', JArr []),
      (''backup'', JObj [(''enabled'', JBool False), (''frequency'', JStr NEVER)])]"

definition getMaterials :: "storage \<Rightarrow> json" where
  "getMaterials ls = get_item MATERIALS (JArr []) ls"
definition saveMaterials :: "json option \<Rightarrow> storage \<Rightarrow> storage" where
  "saveMaterials d ls = set_item MATERIALS d ls"

definition getPersonnel :: "storage \<Rightarrow> json" where
  "getPersonnel ls = get_item PERSONNEL (JArr []) ls"
definition savePersonnel :: "json option \<Rightarrow> storage \<Rightarrow> storage" where
  "savePersonnel d ls = set_item PERSONNEL d ls"

definition getCautelas :: "storage \<Rightarrow> json" where
  "getCautelas ls = get_item CAUTELAS (JArr []) ls"
definition saveCautelas :: "json option \<Rightarrow> storage \<Rightarrow> storage" where
  "saveCautelas d ls = set_item CAUTELAS d ls"

definition getLogs :: "storage \<Rightarrow> json" where
  "getLogs ls = get_item LOGS (JArr []) ls"
definition saveLogs :: "json option \<Rightarrow> storage \<Rightarrow> storage" where
  "saveLogs d ls = set_item LOGS d ls"

definition getSettings :: "storage \<Rightarrow> json" where
  "getSettings ls = get_item SETTINGS defaultSettings ls"
definition saveSettings :: "json option \<Rightarrow> storage \<Rightarrow> storage" where
  "saveSettings d ls = set_item SETTINGS d ls"

text \<open>
  The clock readings of one operation: \<^verbatim>\<open>Date.now()\<close> in milliseconds, an integer that
  JavaScript prints in plain decimal, and the text of \<^verbatim>\<open>new Date().toISOString()\<close>.
\<close>

record clock =
  nowMillis :: int
  nowISO :: string

text \<open>
  \<open>addLog\<close> prepends one entry to the stored log. The spread of the stored value raises
  before anything is written when that value is not iterable.
\<close>

definition newLog :: "clock \<Rightarrow> string \<Rightarrow> string \<Rightarrow> string \<Rightarrow> json" where
  "newLog clk armorerName action details = JObj
     [(''id'', JStr (showInt (nowMillis clk))),
      (''armorerName'', JStr armorerName),
      (''action'', JStr action),
      (''details'', JStr details),
      (''timestamp'', JStr (nowISO clk))]"

definition addLog :: "clock \<Rightarrow> string \<Rightarrow> string \<Rightarrow> string \<Rightarrow> storage \<Rightarrow> error + storage" where
  "addLog clk armorerName action details ls =
     (case spread (getLogs ls) of
        Inl e \<Rightarrow> Inl e
      | Inr logs \<Rightarrow> Inr (saveLogs (Some (JArr (newLog clk armorerName action details # logs))) ls))"

section \<open>Backup and restore\<close>

definition a_acute :: string where "a_acute = [CHR 0xC3, CHR 0xA1]"
definition i_acute :: string where "i_acute = [CHR 0xC3, CHR 0xAD]"
definition a_tilde :: string where "a_tilde = [CHR 0xC3, CHR 0xA3]"
definition c_cedilla :: string where "c_cedilla = [CHR 0xC3, CHR 0xA7]"

text \<open>\<^verbatim>\<open>s.endsWith(t)\<close> and \<^verbatim>\<open>s.includes(t)\<close>.\<close>

definition endsWith :: "string \<Rightarrow> string \<Rightarrow> bool" where
  "endsWith s t = (length t \<le> length s \<and> drop (length s - length t) s = t)"

fun includes_str :: "string \<Rightarrow> string \<Rightarrow> bool" where
  "includes_str [] t = (t = [])"
| "includes_str (c # s) t = (take (length t) (c # s) = t \<or> includes_str s t)"

text \<open>
  \<open>generateBackupData\<close> reads the five items and stamps the document. The store is
  returned as the function leaves it.
\<close>

definition generateBackupData :: "clock \<Rightarrow> storage \<Rightarrow> json \<times> storage" where
  "generateBackupData clk ls =
     (JObj
        [(''materials'', getMaterials ls),
         (''personnel'', getPersonnel ls),
         (''cautelas'', getCautelas ls),
         (''logs'', getLogs ls),
         (''settings'', getSettings ls),
         (''timestamp'', JStr (nowISO clk)),
         (''version'', JStr ''1.1''),
         (''integrityHash'', JStr (showInt (nowMillis clk)))],
      ls)"

text \<open>
  A JSZip archive is the ordered list of its members, name and content; generating the
  blob and loading it again is JSZip's business and gives the same members.
  \<^verbatim>\<open>zip.file(name, content)\<close> replaces the member of that name or adds one at the end.
\<close>

type_synonym 'c archive = "(string \<times> 'c) list"

fun zip_file :: "string \<Rightarrow> 'c \<Rightarrow> 'c archive \<Rightarrow> 'c archive" where
  "zip_file name content [] = [(name, content)]"
| "zip_file name content ((n, c) # ms) =
     (if n = name then (name, content) # ms else (n, c) # zip_file name content ms)"

definition packBackup :: "'c \<Rightarrow> 'c archive" where
  "packBackup jsonContent = zip_file ''backup_sentinela.json'' jsonContent []"

text \<open>
  The two \<^verbatim>\<open>then\<close> steps of the archive branch of \<open>restoreBackup\<close>: the first member whose
  name ends in \<^verbatim>\<open>.json\<close>, and its content; \<^verbatim>\<open>Error("JSON file not found in ZIP")\<close> is
  \<open>Inl Rejected\<close>, a content that \<^verbatim>\<open>zip.file(...)?.async\<close> leaves undefined is \<open>Inr None\<close>.
\<close>

definition zipContent :: "'c archive \<Rightarrow> error + 'c option" where
  "zipContent z =
     (case find (\<lambda>name. endsWith name ''.json'') (map fst z) of
        Some jsonFile \<Rightarrow> Inr (map_of z jsonFile)
      | None \<Rightarrow> Inl Rejected)"

record download =
  downloadName :: string
  blob :: "rawtext archive"

definition dashes :: "string \<Rightarrow> string" where
  "dashes s = map (\<lambda>c. if c = CHR '':'' \<or> c = CHR ''.'' then CHR ''-'' else c) s"

text \<open>
  \<open>createBackup\<close>; \<open>blobSize\<close> is the size of the blob \<^verbatim>\<open>zip.generateAsync\<close> delivers,
  \<open>None\<close> when that promise rejects. An exception raised in the \<^verbatim>\<open>catch\<close> block leaves the
  function.
\<close>

definition createBackup ::
  "clock \<Rightarrow> nat option \<Rightarrow> string \<Rightarrow> storage \<Rightarrow> (error + bool) \<times> download option \<times> storage" where
  "createBackup clk blobSize initiator ls =
     (let backupData = fst (generateBackupData clk ls);
          jsonContent = JSON_stringify (Some backupData);
          fileName = ''backup_sentinela_'' @ dashes (nowISO clk) @ ''.zip'';
          zip = packBackup jsonContent;
          failed = (\<lambda>file. case addLog clk initiator ''Erro Backup'' ''Falha ao gerar arquivo ZIP local.'' ls of
                       Inr ls' \<Rightarrow> (Inr False, file, ls')
                     | Inl e' \<Rightarrow> (Inl e', file, ls))
      in case blobSize of
           None \<Rightarrow> failed None
         | Some n \<Rightarrow>
             (let file = \<lparr>downloadName = fileName, blob = zip\<rparr>
              in case addLog clk initiator ''Backup Local''
                        (''Backup criado e baixado. Tamanho: '' @ showNat n @ '' bytes'') ls of
                   Inr ls' \<Rightarrow> (Inr True, Some file, ls')
                 | Inl e \<Rightarrow> failed (Some file)))"

text \<open>
  What a call of \<open>restoreBackup\<close> leaves behind: the arguments the callback received, or
  the exception that left the call with the callback never invoked; the
  \<^verbatim>\<open>console.warn\<close> lines; the store.
\<close>

datatype outcome = Called bool string | Escaped error

record restored =
  outcome :: outcome
  warnings :: "string list"
  store :: storage

definition ERRO_RESTAURACAO :: string where
  "ERRO_RESTAURACAO = ''Erro Restaura'' @ c_cedilla @ a_tilde @ ''o''"

definition RESTAURACAO :: string where
  "RESTAURACAO = ''Restaura'' @ c_cedilla @ a_tilde @ ''o''"

definition MSG_INVALID_LOG :: string where
  "MSG_INVALID_LOG = ''Arquivo inv'' @ a_acute @ ''lido ou corrompido (falta estrutura b'' @ a_acute @ ''sica).''"

definition MSG_INVALID :: string where
  "MSG_INVALID = ''Estrutura do arquivo inv'' @ a_acute @ ''lida.''"

definition MSG_RESTORED_LOG :: string where
  "MSG_RESTORED_LOG = ''Sistema restaurado com sucesso. Vers'' @ a_tilde @ ''o do backup: ''"

definition MSG_RESTORED :: string where
  "MSG_RESTORED = ''Dados restaurados com sucesso.''"

definition MSG_JSON_LOG :: string where
  "MSG_JSON_LOG = ''Erro ao processar JSON.''"

definition MSG_CRITICAL :: string where
  "MSG_CRITICAL = ''Erro cr'' @ i_acute @ ''tico ao processar dados.''"

definition MSG_ZIP_EMPTY :: string where
  "MSG_ZIP_EMPTY = ''ZIP vazio ou ileg'' @ i_acute @ ''vel.''"

definition MSG_ZIP_ERROR :: string where
  "MSG_ZIP_ERROR = ''Erro ao ler arquivo ZIP.''"

definition MSG_READ_FAILED :: string where
  "MSG_READ_FAILED = ''Falha na leitura do arquivo.''"

definition MSG_NO_ADMINS :: string where
  "MSG_NO_ADMINS = ''Backup has no admins. Be careful.''"

text \<open>
  The condition of the lockout advisory:
  \<^verbatim>\<open>(!json.settings.admins || json.settings.admins.length === 0) && getSettings().admins?.length === 0\<close>,
  with the right operand read only when the left one holds. \<^verbatim>\<open>admins.length\<close> is read
  only of a truthy \<^verbatim>\<open>admins\<close>, where the read cannot raise.
\<close>

definition lockoutRisk :: "json option \<Rightarrow> storage \<Rightarrow> error + bool" where
  "lockoutRisk settings ls =
     (case getProp settings ''admins'' of
        Inl e \<Rightarrow> Inl e
      | Inr admins \<Rightarrow>
          (if \<not> truthy admins \<or> optProp admins ''length'' = Some (JNum ''0'')
           then (case getProp (Some (getSettings ls)) ''admins'' of
                   Inl e \<Rightarrow> Inl e
                 | Inr current \<Rightarrow> Inr (optProp current ''length'' = Some (JNum ''0'')))
           else Inr False))"

text \<open>
  The \<^verbatim>\<open>try\<close> block of \<open>processJson\<close>: the callback arguments when it runs to its end, or
  the exception, with the warnings and the store as they are at that point. The template
  literal of the success entry is evaluated after the five items are saved and before
  \<open>addLog\<close> is entered.
\<close>

definition tryProcessJson ::
  "clock \<Rightarrow> string \<Rightarrow> rawtext \<Rightarrow> storage \<Rightarrow> (error + bool \<times> string) \<times> string list \<times> storage" where
  "tryProcessJson clk initiator jsonString ls =
     (case JSON_parse jsonString of
        Inl e \<Rightarrow> (Inl e, [], ls)
      | Inr json \<Rightarrow>
          (case getProp (Some json) ''version'' of
             Inl e \<Rightarrow> (Inl e, [], ls)
           | Inr version \<Rightarrow>
               (if \<not> truthy version \<or> \<not> truthy (member json ''materials'')
                     \<or> \<not> truthy (member json ''settings'')
                then (case addLog clk initiator ERRO_RESTAURACAO MSG_INVALID_LOG ls of
                        Inl e \<Rightarrow> (Inl e, [], ls)
                      | Inr ls' \<Rightarrow> (Inr (False, MSG_INVALID), [], ls'))
                else (case lockoutRisk (member json ''settings'') ls of
                        Inl e \<Rightarrow> (Inl e, [], ls)
                      | Inr risk \<Rightarrow>
                          (let w = (if risk then [MSG_NO_ADMINS] else []);
                               ls1 = saveMaterials (member json ''materials'') ls;
                               ls2 = savePersonnel (member json ''personnel'') ls1;
                               ls3 = saveCautelas (member json ''cautelas'') ls2;
                               ls4 = saveLogs (member json ''logs'') ls3;
                               ls5 = saveSettings (member json ''settings'') ls4
                           in case template version of
                                Inl e \<Rightarrow> (Inl e, w, ls5)
                              | Inr versionText \<Rightarrow>
                                  (case addLog clk initiator RESTAURACAO
                                          (MSG_RESTORED_LOG @ versionText) ls5 of
                                     Inl e \<Rightarrow> (Inl e, w, ls5)
                                   | Inr ls6 \<Rightarrow> (Inr (True, MSG_RESTORED), w, ls6)))))))"

definition processJson :: "clock \<Rightarrow> string \<Rightarrow> rawtext \<Rightarrow> storage \<Rightarrow> restored" where
  "processJson clk initiator jsonString ls =
     (case tryProcessJson clk initiator jsonString ls of
        (Inr (success, message), w, ls') \<Rightarrow>
          \<lparr>outcome = Called success message, warnings = w, store = ls'\<rparr>
      | (Inl e, w, ls') \<Rightarrow>
          (case addLog clk initiator ERRO_RESTAURACAO MSG_JSON_LOG ls' of
             Inr ls'' \<Rightarrow> \<lparr>outcome = Called False MSG_CRITICAL, warnings = w, store = ls''\<rparr>
           | Inl e' \<Rightarrow> \<lparr>outcome = Escaped e', warnings = w, store = ls'\<rparr>))"

text \<open>
  A \<^verbatim>\<open>File\<close> is its name, its MIME type and its content as the two readers see it: the
  members \<^verbatim>\<open>JSZip.loadAsync\<close> finds (\<open>None\<close> when that promise rejects) and the text
  \<^verbatim>\<open>FileReader.readAsText\<close> delivers.
\<close>

record js_file =
  fileName :: string
  fileType :: string
  zipFiles :: "rawtext archive option"
  fileText :: rawtext

datatype restore_input = FromString rawtext | FromFile js_file

text \<open>
  In the archive branch \<open>processJson\<close> runs inside the promise chain, so an exception that
  leaves it reaches the final \<^verbatim>\<open>catch\<close> of the chain. In the plain-file branch it runs in
  the \<^verbatim>\<open>onload\<close> handler; a reader that never fires \<^verbatim>\<open>onload\<close> is not modelled.
\<close>

definition restoreBackup :: "clock \<Rightarrow> string \<Rightarrow> restore_input \<Rightarrow> storage \<Rightarrow> restored" where
  "restoreBackup clk initiator input ls =
     (case input of
        FromString s \<Rightarrow> processJson clk initiator s ls
      | FromFile file \<Rightarrow>
          (if endsWith (fileName file) ''.zip'' \<or> includes_str (fileType file) ''zip''
           then (case zipFiles file of
                   None \<Rightarrow> \<lparr>outcome = Called False MSG_ZIP_ERROR, warnings = [], store = ls\<rparr>
                 | Some z \<Rightarrow>
                     (case zipContent z of
                        Inl e \<Rightarrow> \<lparr>outcome = Called False MSG_ZIP_ERROR, warnings = [], store = ls\<rparr>
                      | Inr None \<Rightarrow> \<lparr>outcome = Called False MSG_ZIP_EMPTY, warnings = [], store = ls\<rparr>
                      | Inr (Some content) \<Rightarrow>
                          (if nonEmpty content
                           then (let r = processJson clk initiator content ls
                                 in case outcome r of
                                      Escaped e \<Rightarrow> r\<lparr>outcome := Called False MSG_ZIP_ERROR\<rparr>
                                    | Called success message \<Rightarrow> r)
                           else \<lparr>outcome = Called False MSG_ZIP_EMPTY, warnings = [], store = ls\<rparr>)))
           else (if nonEmpty (fileText file)
                 then processJson clk initiator (fileText file) ls
                 else \<lparr>outcome = Called False MSG_READ_FAILED, warnings = [], store = ls\<rparr>)))"

section \<open>The remote folder chain\<close>

text \<open>
  The Drive, as the two requests of \<open>findOrCreateFolderChain\<close> see it: the files it holds,
  in the order a search lists them, and the id the next created file receives. File ids
  are non-empty texts, so every id is truthy; they are represented by numbers, and an
  optional \<^verbatim>\<open>parentId\<close> by \<open>nat option\<close>. Both requests are answered; a search sees what
  earlier requests created.
\<close>

record drive_file =
  fileId :: nat
  name :: string
  mimeType :: string
  parents :: "nat list"
  trashed :: bool

record drive =
  files :: "drive_file list"
  nextId :: nat

definition FOLDER :: string where
  "FOLDER = ''application/vnd.google-apps.folder''"

definition APP_ROOT :: string where
  "APP_ROOT = ''App_Controle_Armamento''"

definition BACKUPS :: string where
  "BACKUPS = ''Backups''"

text \<open>
  The search query: \<^verbatim>\<open>mimeType='...folder' and name='...' and trashed=false\<close>, and
  \<^verbatim>\<open>'parentId' in parents\<close> only when a parent is given.
\<close>

definition matches :: "string \<Rightarrow> nat option \<Rightarrow> drive_file \<Rightarrow> bool" where
  "matches n parentId f =
     (mimeType f = FOLDER \<and> name f = n \<and> \<not> trashed f \<and>
      (case parentId of None \<Rightarrow> True | Some p \<Rightarrow> p \<in> set (parents f)))"

definition findFolder :: "string \<Rightarrow> nat option \<Rightarrow> drive \<Rightarrow> nat option" where
  "findFolder n parentId d =
     (case filter (matches n parentId) (files d) of
        [] \<Rightarrow> None
      | f # fs \<Rightarrow> Some (fileId f))"

definition createFolder :: "string \<Rightarrow> nat option \<Rightarrow> drive \<Rightarrow> nat \<times> drive" where
  "createFolder n parentId d =
     (nextId d,
      d\<lparr>files := files d @
            [\<lparr>fileId = nextId d, name = n, mimeType = FOLDER,
              parents = (case parentId of None \<Rightarrow> [] | Some p \<Rightarrow> [p]), trashed = False\<rparr>],
        nextId := Suc (nextId d)\<rparr>)"

definition findOrCreateFolderChain :: "string \<Rightarrow> drive \<Rightarrow> nat \<times> drive" where
  "findOrCreateFolderChain accessToken d =
     (let (rootId, d1) = (case findFolder APP_ROOT None d of
                            Some r \<Rightarrow> (r, d)
                          | None \<Rightarrow> createFolder APP_ROOT None d);
          (backupId, d2) = (case findFolder BACKUPS (Some rootId) d1 of
                              Some b \<Rightarrow> (b, d1)
                            | None \<Rightarrow> createFolder BACKUPS (Some rootId) d1)
      in (backupId, d2))"

section \<open>Upload and the automatic check\<close>

text \<open>
  The multipart request of the upload and what \<^verbatim>\<open>fetch\<close> makes of it: the promise rejects,
  or a response arrives with its \<^verbatim>\<open>ok\<close> flag, its status text and its body as
  \<^verbatim>\<open>response.json()\<close> reads it (\<open>None\<close> when that promise rejects).
\<close>

record upload_request =
  bearer :: string
  metaName :: string
  metaMimeType :: string
  metaParents :: "nat list"
  fileBlob :: "rawtext archive"

datatype fetch_result = NetworkFailure | Response bool string "json option"

text \<open>
  An assignment \<^verbatim>\<open>v.k = x\<close> as the stored text shows it afterwards: an object gets or
  replaces the key; an array keeps the property out of its JSON text; a primitive raises
  in a module (strict mode).
\<close>

fun putKey :: "string \<Rightarrow> json \<Rightarrow> (string \<times> json) list \<Rightarrow> (string \<times> json) list" where
  "putKey k x [] = [(k, x)]"
| "putKey k x ((n, c) # kvs) = (if n = k then (k, x) # kvs else (n, c) # putKey k x kvs)"

fun setProp :: "json \<Rightarrow> string \<Rightarrow> json \<Rightarrow> error + json" where
  "setProp (JObj kvs) k x = Inr (JObj (putKey k x kvs))"
| "setProp (JArr xs) k x = Inr (JArr xs)"
| "setProp v k x = Inl TypeError"

definition MSG_DRIVE_SENT :: string where
  "MSG_DRIVE_SENT = ''Backup autom'' @ a_acute @ ''tico enviado. ID: ''"

definition MSG_DRIVE_FAILED :: string where
  "MSG_DRIVE_FAILED = ''Falha no envio para Google Drive.''"

definition AUTOMATICO :: string where
  "AUTOMATICO = ''Autom'' @ a_acute @ ''tico''"

text \<open>
  The update of \<^verbatim>\<open>lastBackupDate\<close> after a successful upload:
  \<^verbatim>\<open>if (currentSettings.backup) { currentSettings.backup.lastBackupDate = ...; saveSettings(currentSettings) }\<close>.
\<close>

definition stampLastBackup :: "clock \<Rightarrow> storage \<Rightarrow> error + storage" where
  "stampLastBackup clk ls =
     (let currentSettings = getSettings ls
      in case getProp (Some currentSettings) ''backup'' of
           Inl e \<Rightarrow> Inl e
         | Inr None \<Rightarrow> Inr ls
         | Inr (Some backup) \<Rightarrow>
             (if truthy (Some backup)
              then (case setProp backup ''lastBackupDate'' (JStr (nowISO clk)) of
                      Inl e \<Rightarrow> Inl e
                    | Inr backup' \<Rightarrow>
                        (case setProp currentSettings ''backup'' backup' of
                           Inl e \<Rightarrow> Inl e
                         | Inr settings' \<Rightarrow> Inr (saveSettings (Some settings') ls)))
              else Inr ls))"

text \<open>
  The request \<open>uploadBackup\<close> sends: a fresh snapshot, packed, with its metadata.
\<close>

definition uploadRequest :: "clock \<Rightarrow> string \<Rightarrow> nat \<Rightarrow> storage \<Rightarrow> upload_request" where
  "uploadRequest clk accessToken folderId ls =
     (let backupData = fst (generateBackupData clk ls);
          jsonContent = JSON_stringify (Some backupData);
          zip = packBackup jsonContent;
          fileName = ''backup_auto_'' @ dashes (nowISO clk) @ ''.zip''
      in \<lparr>bearer = accessToken, metaName = fileName, metaMimeType = ''application/zip'',
          metaParents = [folderId], fileBlob = zip\<rparr>)"

text \<open>
  The \<^verbatim>\<open>try\<close> block of \<open>uploadBackup\<close>. \<open>token\<close> is what \<open>getAccessToken\<close> resolves to,
  \<open>None\<close> when it rejects; \<open>fetch\<close> answers the upload request.
\<close>

definition tryUploadBackup ::
  "clock \<Rightarrow> string option \<Rightarrow> (upload_request \<Rightarrow> fetch_result) \<Rightarrow> string \<Rightarrow> drive \<Rightarrow> storage
     \<Rightarrow> (error + bool) \<times> drive \<times> storage" where
  "tryUploadBackup clk token fetch initiator d ls =
     (case token of
        None \<Rightarrow> (Inl Rejected, d, ls)
      | Some accessToken \<Rightarrow>
          (let (folderId, d') = findOrCreateFolderChain accessToken d
           in case fetch (uploadRequest clk accessToken folderId ls) of
                NetworkFailure \<Rightarrow> (Inl Rejected, d', ls)
              | Response ok statusText body \<Rightarrow>
                  (if \<not> ok then (Inl (UploadFailed (''Upload failed: '' @ statusText)), d', ls)
                   else (case body of
                           None \<Rightarrow> (Inl SyntaxError, d', ls)
                         | Some result \<Rightarrow>
                             (case stampLastBackup clk ls of
                                Inl e \<Rightarrow> (Inl e, d', ls)
                              | Inr ls1 \<Rightarrow>
                                  (case getProp (Some result) ''id'' of
                                     Inl e \<Rightarrow> (Inl e, d', ls1)
                                   | Inr rid \<Rightarrow>
                                       (case template rid of
                                          Inl e \<Rightarrow> (Inl e, d', ls1)
                                        | Inr idText \<Rightarrow>
                                            (case addLog clk initiator ''Backup Drive''
                                                    (MSG_DRIVE_SENT @ idText) ls1 of
                                               Inl e \<Rightarrow> (Inl e, d', ls1)
                                             | Inr ls2 \<Rightarrow> (Inr True, d', ls2)))))))))"

text \<open>
  \<open>uploadBackup\<close>: the \<^verbatim>\<open>catch\<close> block appends the failure entry and throws the exception
  again; an exception of \<open>addLog\<close> itself takes its place.
\<close>

definition uploadBackup ::
  "clock \<Rightarrow> string option \<Rightarrow> (upload_request \<Rightarrow> fetch_result) \<Rightarrow> string \<Rightarrow> drive \<Rightarrow> storage
     \<Rightarrow> (error + bool) \<times> drive \<times> storage" where
  "uploadBackup clk token fetch initiator d ls =
     (case tryUploadBackup clk token fetch initiator d ls of
        (Inr b, d', ls') \<Rightarrow> (Inr b, d', ls')
      | (Inl e, d', ls') \<Rightarrow>
          (case addLog clk initiator ''Erro Backup Drive'' MSG_DRIVE_FAILED ls' of
             Inr ls'' \<Rightarrow> (Inl e, d', ls'')
           | Inl e' \<Rightarrow> (Inl e', d', ls')))"

text \<open>
  The due check of \<open>runAutoBackupCheck\<close>, on the value of \<^verbatim>\<open>settings.backup\<close>.
  \<open>newDate v\<close> is \<^verbatim>\<open>new Date(v).getTime()\<close>, \<open>None\<close> for an invalid date, whose
  \<^verbatim>\<open>NaN\<close> makes every comparison false.
\<close>

definition dueAfter :: "json option \<Rightarrow> real option \<Rightarrow> bool" where
  "dueAfter frequency diffHours =
     (if frequency = Some (JStr ON_BOOT) then True
      else if frequency = Some (JStr DAILY) then (case diffHours of None \<Rightarrow> False | Some h \<Rightarrow> h \<ge> 24)
      else if frequency = Some (JStr WEEKLY) then (case diffHours of None \<Rightarrow> False | Some h \<Rightarrow> h \<ge> 168)
      else if frequency = Some (JStr MONTHLY) then (case diffHours of None \<Rightarrow> False | Some h \<Rightarrow> h \<ge> 720)
      else False)"

definition shouldBackup :: "(json \<Rightarrow> int option) \<Rightarrow> clock \<Rightarrow> json \<Rightarrow> bool" where
  "shouldBackup newDate clk backup =
     (case member backup ''lastBackupDate'' of
        None \<Rightarrow> True
      | Some lastBackupDate \<Rightarrow>
          (if \<not> truthy (Some lastBackupDate) then True
           else (let diffHours =
                       (case newDate lastBackupDate of
                          None \<Rightarrow> None
                        | Some lastBackup \<Rightarrow>
                            Some (real_of_int (nowMillis clk - lastBackup) / (1000 * 60 * 60)))
                 in dueAfter (member backup ''frequency'') diffHours)))"

text \<open>
  \<open>runAutoBackupCheck\<close>. \<open>initOk\<close> tells whether \<open>initClient\<close> resolves. The result is the
  exception that leaves the function, or the result of the upload cycle when one ran
  (\<open>None\<close> when none did); the exception of a failed cycle is only printed.
\<close>

definition runAutoBackupCheck ::
  "(json \<Rightarrow> int option) \<Rightarrow> clock \<Rightarrow> bool \<Rightarrow> string option \<Rightarrow> (upload_request \<Rightarrow> fetch_result)
     \<Rightarrow> drive \<Rightarrow> storage \<Rightarrow> (error + (error + bool) option) \<times> drive \<times> storage" where
  "runAutoBackupCheck newDate clk initOk token fetch d ls =
     (let settings = getSettings ls
      in case getProp (Some settings) ''googleDrive'' of
           Inl e \<Rightarrow> (Inl e, d, ls)
         | Inr googleDrive \<Rightarrow>
             (if \<not> truthy (optProp googleDrive ''clientId'')
                   \<or> \<not> truthy (optProp (member settings ''backup'') ''enabled'')
              then (Inr None, d, ls)
              else if \<not> initOk then (Inr None, d, ls)
              else (case member settings ''backup'' of
                      None \<Rightarrow> (Inr None, d, ls)
                    | Some backup \<Rightarrow>
                        (if shouldBackup newDate clk backup
                         then (case uploadBackup clk token fetch AUTOMATICO d ls of
                                 (r, d', ls') \<Rightarrow> (Inr (Some r), d', ls'))
                         else (Inr None, d, ls)))))"

section \<open>Observations and example inputs\<close>

text \<open>
  What the incoming document makes \<open>addLog\<close> spread after \<open>saveLogs\<close> has stored its
  \<^verbatim>\<open>logs\<close> field: nothing when the field is absent (the stored text \<^verbatim>\<open>undefined\<close> reads
  back as the default), the field's elements otherwise.
\<close>

definition incomingLogs :: "json \<Rightarrow> error + json list" where
  "incomingLogs json = (case member json ''logs'' of None \<Rightarrow> Inr [] | Some l \<Rightarrow> spread l)"

text \<open>The entries of a \<^verbatim>\<open>logs\<close> field that is absent or an array.\<close>

definition listedLogs :: "json \<Rightarrow> json list option" where
  "listedLogs json =
     (case member json ''logs'' of
        None \<Rightarrow> Some []
      | Some (JArr entries) \<Rightarrow> Some entries
      | Some v \<Rightarrow> None)"

text \<open>
  In the archive branch the final \<^verbatim>\<open>catch\<close> of the promise chain answers for an exception
  that leaves \<open>processJson\<close>.
\<close>

definition chainCatch :: "restored \<Rightarrow> restored" where
  "chainCatch r =
     (case outcome r of
        Escaped e \<Rightarrow> r\<lparr>outcome := Called False MSG_ZIP_ERROR\<rparr>
      | Called success message \<Rightarrow> r)"


text \<open>The stored \<^verbatim>\<open>settings.backup.lastBackupDate\<close>.\<close>

definition lastBackupDate :: "storage \<Rightarrow> json option" where
  "lastBackupDate ls = optProp (member (getSettings ls) ''backup'') ''lastBackupDate''"

text \<open>The files a run of the folder chain added to the Drive.\<close>

definition created :: "drive \<Rightarrow> drive \<Rightarrow> drive_file list" where
  "created d d' = drop (length (files d)) (files d')"

text \<open>Example inputs.\<close>

definition clock0 :: clock where
  "clock0 = \<lparr>nowMillis = 1704067200000, nowISO = ''2024-01-01T00:00:00.000Z''\<rparr>"

definition emptyStorage :: storage where
  "emptyStorage = (\<lambda>key. None)"

definition emptyDrive :: drive where
  "emptyDrive = \<lparr>files = [], nextId = 1\<rparr>"

text \<open>
  A reading of \<^verbatim>\<open>new Date(v).getTime()\<close> on the four ISO texts the examples use.
\<close>

definition newDate0 :: "json \<Rightarrow> int option" where
  "newDate0 v =
     (case v of
        JStr s \<Rightarrow>
          (if s = ''2023-12-31T01:00:00.000Z'' then Some 1703984400000
           else if s = ''2023-12-30T23:00:00.000Z'' then Some 1703977200000
           else if s = ''2023-12-25T00:00:00.000Z'' then Some 1703462400000
           else if s = ''2023-12-02T00:00:00.000Z'' then Some 1701475200000
           else None)
      | _ \<Rightarrow> None)"

definition backupPolicy :: "string \<Rightarrow> string \<Rightarrow> json" where
  "backupPolicy frequency stamp = JObj
     [(''enabled'', JBool True), (''frequency'', JStr frequency), (''lastBackupDate'', JStr stamp)]"

definition settingsNeverNoDate :: json where
  "settingsNeverNoDate = JObj
     [(''institutionName'', JStr ''1 Cia''),
      (''theme'', JStr ''light''),
      (''admins'', JArr []),
      (''googleDrive'', JObj [(''clientId'', JStr ''client-1''), (''apiKey'', JStr ''key-1'')]),
      (''backup'', JObj [(''enabled'', JBool True), (''frequency'', JStr NEVER)])]"

definition storageNeverNoDate :: storage where
  "storageNeverNoDate = emptyStorage(SETTINGS \<mapsto> Json settingsNeverNoDate)"

definition fetchOk :: "upload_request \<Rightarrow> fetch_result" where
  "fetchOk request = Response True ''OK'' (Some (JObj [(''id'', JStr ''file-1'')]))"


definition docNoSettings :: json where
  "docNoSettings = JObj [(''version'', JStr ''1.1''), (''materials'', JArr [])]"

definition docNoAdminsNullLogs :: json where
  "docNoAdminsNullLogs = JObj
     [(''version'', JStr ''1.1''), (''materials'', JArr []), (''personnel'', JArr []),
      (''cautelas'', JArr []), (''logs'', JNull), (''settings'', JObj [(''admins'', JArr [])])]"

definition admin1 :: json where
  "admin1 = JObj [(''id'', JStr ''1''), (''name'', JStr ''Silva''), (''matricula'', JStr ''100''),
                  (''role'', JStr ''ADMIN'')]"








definition material1 :: json where
  "material1 = JObj [(''id'', JStr ''m1''), (''serialNumber'', JStr ''SN-1'')]"

definition person1 :: json where
  "person1 = JObj [(''id'', JStr ''p1''), (''name'', JStr ''Souza'')]"

definition cautela1 :: json where
  "cautela1 = JObj [(''id'', JStr ''c1''), (''personnelId'', JStr ''p1''), (''status'', JStr ''OPEN'')]"

definition log1 :: json where
  "log1 = JObj [(''id'', JStr ''1700000000000''), (''armorerName'', JStr ''Silva''),
                (''action'', JStr ''Login''), (''details'', JStr ''ok''),
                (''timestamp'', JStr ''2023-11-14T22:13:20.000Z'')]"

definition settings1 :: json where
  "settings1 = JObj [(''institutionName'', JStr ''1 Cia''), (''theme'', JStr ''dark''),
                     (''admins'', JArr [admin1])]"

definition storageFull :: storage where
  "storageFull =
     (\<lambda>key. if key = ''sentinela_materials'' then Some (Json (JArr [material1]))
            else if key = ''sentinela_personnel'' then Some (Json (JArr [person1]))
            else if key = ''sentinela_cautelas'' then Some (Json (JArr [cautela1]))
            else if key = ''sentinela_logs'' then Some (Json (JArr [log1]))
            else if key = ''sentinela_settings'' then Some (Json settings1)
            else None)"

definition snapshotFull :: json where
  "snapshotFull = JObj
     [(''materials'', JArr [material1]),
      (''personnel'', JArr [person1]),
      (''cautelas'', JArr [cautela1]),
      (''logs'', JArr [log1]),
      (''settings'', settings1),
      (''timestamp'', JStr ''2024-01-01T00:00:00.000Z''),
      (''version'', JStr ''1.1''),
      (''integrityHash'', JStr ''1704067200000'')]"

text \<open>The file \<open>createBackup\<close> downloads from \<open>storageFull\<close>, as JSZip loads it again.\<close>

definition downloadedFull :: js_file where
  "downloadedFull =
     \<lparr>fileName = ''backup_sentinela_2024-01-01T00-00-00-000Z.zip'', fileType = ''application/zip'',
      zipFiles = Some [(''backup_sentinela.json'', Json snapshotFull)], fileText = NotJson ''PK''\<rparr>"

definition zipWithoutJson :: js_file where
  "zipWithoutJson =
     \<lparr>fileName = ''backup.zip'', fileType = ''application/zip'',
      zipFiles = Some [(''readme.txt'', NotJson ''hello'')], fileText = NotJson ''PK''\<rparr>"

section \<open>Facts about the store\<close>

lemmas KEYS_defs = MATERIALS_def PERSONNEL_def CAUTELAS_def LOGS_def SETTINGS_def

lemmas BackupFrequency_defs = NEVER_def ON_BOOT_def DAILY_def WEEKLY_def MONTHLY_def

lemma keys_distinct:
  "MATERIALS \<noteq> PERSONNEL" "MATERIALS \<noteq> CAUTELAS" "MATERIALS \<noteq> LOGS" "MATERIALS \<noteq> SETTINGS"
  "PERSONNEL \<noteq> CAUTELAS" "PERSONNEL \<noteq> LOGS" "PERSONNEL \<noteq> SETTINGS"
  "CAUTELAS \<noteq> LOGS" "CAUTELAS \<noteq> SETTINGS" "LOGS \<noteq> SETTINGS"
  by (simp_all add: KEYS_defs)

lemma addLog_ok:
  "spread (getLogs ls) = Inr logs \<Longrightarrow>
   addLog clk a b c ls = Inr (ls(LOGS \<mapsto> Json (JArr (newLog clk a b c # logs))))"
  by (simp add: addLog_def saveLogs_def set_item_def JSON_stringify_def)

lemma addLog_throws: "spread (getLogs ls) = Inl e \<Longrightarrow> addLog clk a b c ls = Inl e"
  by (simp add: addLog_def)

lemma getLogs_upd_other: "k \<noteq> LOGS \<Longrightarrow> getLogs (ls(k \<mapsto> v)) = getLogs ls"
  by (simp add: getLogs_def get_item_def)

lemma getLogs_upd:
  "getLogs (ls(LOGS \<mapsto> JSON_stringify v)) = (case v of None \<Rightarrow> JArr [] | Some j \<Rightarrow> j)"
  by (simp add: getLogs_def get_item_def JSON_stringify_def nonEmpty_def JSON_parse_def
      split: option.splits)

lemma getLogs_upd_Json: "getLogs (ls(LOGS \<mapsto> Json j)) = j"
  by (simp add: getLogs_def get_item_def nonEmpty_def JSON_parse_def)


lemma getSettings_upd_other: "k \<noteq> SETTINGS \<Longrightarrow> getSettings (ls(k \<mapsto> v)) = getSettings ls"
  by (simp add: getSettings_def get_item_def)

lemma getLogs_emptyStorage: "getLogs emptyStorage = JArr []"
  by (simp add: getLogs_def get_item_def emptyStorage_def)

lemma getSettings_emptyStorage: "getSettings emptyStorage = defaultSettings"
  by (simp add: getSettings_def get_item_def emptyStorage_def)

lemma getProp_member: "v \<noteq> JNull \<Longrightarrow> getProp (Some v) k = Inr (member v k)"
  by (cases v) simp_all

lemma truthy_not_null: "truthy (Some v) \<Longrightarrow> v \<noteq> JNull"
  by auto

lemma truthy_member_not_null: "truthy (member v k) \<Longrightarrow> v \<noteq> JNull"
  by (cases v) auto

section \<open>Facts about \<open>processJson\<close>\<close>

lemma tryProcessJson_invalid:
  assumes "json \<noteq> JNull"
    and "\<not> truthy (member json ''version'') \<or> \<not> truthy (member json ''materials'')
         \<or> \<not> truthy (member json ''settings'')"
  shows "tryProcessJson clk initiator (Json json) ls =
           (case addLog clk initiator ERRO_RESTAURACAO MSG_INVALID_LOG ls of
              Inl e \<Rightarrow> (Inl e, [], ls)
            | Inr ls' \<Rightarrow> (Inr (False, MSG_INVALID), [], ls'))"
  using assms(2)
  by (auto simp add: tryProcessJson_def JSON_parse_def getProp_member[OF assms(1)])

lemma processJson_invalid:
  assumes absent: "member json ''version'' = None \<or> member json ''materials'' = None
                   \<or> member json ''settings'' = None"
      and logs: "spread (getLogs ls) = Inr logs"
  shows "processJson clk initiator (Json json) ls =
           \<lparr>outcome = Called False (if json = JNull then MSG_CRITICAL else MSG_INVALID),
            warnings = [],
            store = ls(LOGS \<mapsto> Json (JArr (newLog clk initiator ERRO_RESTAURACAO
                        (if json = JNull then MSG_JSON_LOG else MSG_INVALID_LOG) # logs)))\<rparr>"
proof (cases "json = JNull")
  case True
  then show ?thesis
    by (simp add: processJson_def tryProcessJson_def JSON_parse_def addLog_ok[OF logs])
next
  case False
  from absent have "\<not> truthy (member json ''version'') \<or> \<not> truthy (member json ''materials'')
      \<or> \<not> truthy (member json ''settings'')"
    by auto
  from tryProcessJson_invalid[OF False this] False show ?thesis
    by (simp add: processJson_def addLog_ok[OF logs])
qed

lemma getLogs_saved:
  "getLogs (ls(MATERIALS \<mapsto> a, PERSONNEL \<mapsto> b, CAUTELAS \<mapsto> c,
               LOGS \<mapsto> JSON_stringify l, SETTINGS \<mapsto> e))
     = (case l of None \<Rightarrow> JArr [] | Some j \<Rightarrow> j)"
  by (simp add: getLogs_upd_other getLogs_upd keys_distinct[symmetric])

lemma spread_saved:
  "spread (getLogs (ls(MATERIALS \<mapsto> a, PERSONNEL \<mapsto> b, CAUTELAS \<mapsto> c,
                       LOGS \<mapsto> JSON_stringify (member json ''logs''), SETTINGS \<mapsto> e)))
     = incomingLogs json"
  by (simp add: getLogs_saved incomingLogs_def split: option.splits)

lemma addLog_saved:
  "addLog clk initiator x y
     (ls(MATERIALS \<mapsto> a, PERSONNEL \<mapsto> b, CAUTELAS \<mapsto> c,
         LOGS \<mapsto> JSON_stringify (member json ''logs''), SETTINGS \<mapsto> e))
     = (case incomingLogs json of
          Inl err \<Rightarrow> Inl err
        | Inr logs \<Rightarrow>
            Inr (ls(MATERIALS \<mapsto> a, PERSONNEL \<mapsto> b, CAUTELAS \<mapsto> c, SETTINGS \<mapsto> e,
                    LOGS \<mapsto> Json (JArr (newLog clk initiator x y # logs)))))"
proof (cases "incomingLogs json")
  case (Inl err)
  then show ?thesis by (simp add: addLog_throws spread_saved)
next
  case (Inr logs)
  have eq: "ls(MATERIALS \<mapsto> a, PERSONNEL \<mapsto> b, CAUTELAS \<mapsto> c, LOGS \<mapsto> l, SETTINGS \<mapsto> e, LOGS \<mapsto> z)
          = ls(MATERIALS \<mapsto> a, PERSONNEL \<mapsto> b, CAUTELAS \<mapsto> c, SETTINGS \<mapsto> e, LOGS \<mapsto> z)"
    for l z
    by (auto simp: fun_eq_iff keys_distinct)
  from Inr have "spread (getLogs (ls(MATERIALS \<mapsto> a, PERSONNEL \<mapsto> b, CAUTELAS \<mapsto> c,
                       LOGS \<mapsto> JSON_stringify (member json ''logs''), SETTINGS \<mapsto> e))) = Inr logs"
    by (simp add: spread_saved)
  from addLog_ok[OF this] Inr show ?thesis by (simp add: eq)
qed

text \<open>The \<^verbatim>\<open>try\<close> block of a document that passes the structural check.\<close>

lemma tryProcessJson_valid:
  assumes v: "truthy (member json ''version'')" and m: "truthy (member json ''materials'')"
      and s: "truthy (member json ''settings'')"
      and risk: "lockoutRisk (member json ''settings'') ls = Inr risk"
  shows "tryProcessJson clk initiator (Json json) ls =
           (let w = (if risk then [MSG_NO_ADMINS] else []);
                ls5 = ls(MATERIALS \<mapsto> JSON_stringify (member json ''materials''),
                         PERSONNEL \<mapsto> JSON_stringify (member json ''personnel''),
                         CAUTELAS \<mapsto> JSON_stringify (member json ''cautelas''),
                         LOGS \<mapsto> JSON_stringify (member json ''logs''),
                         SETTINGS \<mapsto> JSON_stringify (member json ''settings''))
            in case template (member json ''version'') of
                 Inl e \<Rightarrow> (Inl e, w, ls5)
               | Inr versionText \<Rightarrow>
                   (case addLog clk initiator RESTAURACAO (MSG_RESTORED_LOG @ versionText) ls5 of
                      Inl e \<Rightarrow> (Inl e, w, ls5)
                    | Inr ls6 \<Rightarrow> (Inr (True, MSG_RESTORED), w, ls6)))"
proof -
  have gp: "getProp (Some json) ''version'' = Inr (member json ''version'')"
    using v by (intro getProp_member truthy_member_not_null)
  show ?thesis
    using v m s risk
    by (simp add: tryProcessJson_def JSON_parse_def gp Let_def saveSettings_def saveLogs_def
        saveCautelas_def savePersonnel_def saveMaterials_def set_item_def)
qed

lemma processJson_restores:
  assumes v: "truthy (member json ''version'')" and m: "truthy (member json ''materials'')"
      and s: "truthy (member json ''settings'')"
      and risk: "lockoutRisk (member json ''settings'') ls = Inr risk"
      and tv: "template (member json ''version'') = Inr versionText"
      and logs: "incomingLogs json = Inr logs"
  shows "processJson clk initiator (Json json) ls =
           \<lparr>outcome = Called True MSG_RESTORED,
            warnings = (if risk then [MSG_NO_ADMINS] else []),
            store = ls(MATERIALS \<mapsto> JSON_stringify (member json ''materials''),
                       PERSONNEL \<mapsto> JSON_stringify (member json ''personnel''),
                       CAUTELAS \<mapsto> JSON_stringify (member json ''cautelas''),
                       SETTINGS \<mapsto> JSON_stringify (member json ''settings''),
                       LOGS \<mapsto> Json (JArr (newLog clk initiator RESTAURACAO
                                             (MSG_RESTORED_LOG @ versionText) # logs)))\<rparr>"
  by (simp add: processJson_def tryProcessJson_valid[OF v m s risk] tv Let_def addLog_saved logs)


text \<open>
  A \<^verbatim>\<open>logs\<close> field that cannot be spread: the five items are written, \<open>addLog\<close> raises in
  the \<^verbatim>\<open>try\<close> block (or the template literal does) and again in the \<^verbatim>\<open>catch\<close> block.
\<close>

lemma processJson_crashes:
  assumes v: "truthy (member json ''version'')" and m: "truthy (member json ''materials'')"
      and s: "truthy (member json ''settings'')"
      and risk: "lockoutRisk (member json ''settings'') ls = Inr risk"
      and logs: "incomingLogs json = Inl e"
  shows "processJson clk initiator (Json json) ls =
           \<lparr>outcome = Escaped e,
            warnings = (if risk then [MSG_NO_ADMINS] else []),
            store = ls(MATERIALS \<mapsto> JSON_stringify (member json ''materials''),
                       PERSONNEL \<mapsto> JSON_stringify (member json ''personnel''),
                       CAUTELAS \<mapsto> JSON_stringify (member json ''cautelas''),
                       LOGS \<mapsto> JSON_stringify (member json ''logs''),
                       SETTINGS \<mapsto> JSON_stringify (member json ''settings''))\<rparr>"
  by (cases "template (member json ''version'')")
    (simp_all add: processJson_def tryProcessJson_valid[OF v m s risk] Let_def addLog_saved logs)

lemma showNat_0: "showNat 0 = ''0''"
  by (simp add: showNat.simps digit_def)

lemma listedLogs_incoming: "listedLogs json = Some logs \<Longrightarrow> incomingLogs json = Inr logs"
  by (auto simp: listedLogs_def incomingLogs_def split: option.splits json.splits)


lemma lockoutRisk_warns:
  assumes "truthy (Some settings)"
     and "member settings ''admins'' = None \<or> member settings ''admins'' = Some (JArr [])"
     and "member (getSettings ls) ''admins'' = Some (JArr [])"
  shows "lockoutRisk (Some settings) ls = Inr True"
proof -
  have "getSettings ls \<noteq> JNull" using assms(3) by auto
  then show ?thesis using assms(2,3)
    by (auto simp add: lockoutRisk_def getProp_member[OF truthy_not_null[OF assms(1)]]
        getProp_member showNat_0)
qed


section \<open>Facts about the folder chain\<close>

lemma findFolder_createFolder:
  "findFolder n p (snd (createFolder m q d)) =
     (case findFolder n p d of
        Some i \<Rightarrow> Some i
      | None \<Rightarrow> if m = n \<and> (case p of None \<Rightarrow> True | Some x \<Rightarrow> q = Some x)
                then Some (nextId d) else None)"
  by (auto simp: findFolder_def createFolder_def matches_def split: list.splits option.splits)

lemma createFolder_eq:
  "createFolder m q d = (i, d') \<longleftrightarrow> i = nextId d \<and> d' = snd (createFolder m q d)"
  by (auto simp: createFolder_def)

lemma nextId_createFolder: "nextId (snd (createFolder m q d)) = Suc (nextId d)"
  by (simp add: createFolder_def)

lemma files_createFolder:
  "files (snd (createFolder m q d)) = files d @
     [\<lparr>fileId = nextId d, name = m, mimeType = FOLDER,
       parents = (case q of None \<Rightarrow> [] | Some p \<Rightarrow> [p]), trashed = False\<rparr>]"
  by (simp add: createFolder_def)

lemma names_differ: "APP_ROOT \<noteq> BACKUPS" "BACKUPS \<noteq> APP_ROOT"
  by (simp_all add: APP_ROOT_def BACKUPS_def)

lemma chain_cases:
  "findOrCreateFolderChain tok d =
     (case findFolder APP_ROOT None d of
        Some r \<Rightarrow> (case findFolder BACKUPS (Some r) d of
                     Some b \<Rightarrow> (b, d)
                   | None \<Rightarrow> createFolder BACKUPS (Some r) d)
      | None \<Rightarrow> (case findFolder BACKUPS (Some (nextId d)) d of
                   Some b \<Rightarrow> (b, snd (createFolder APP_ROOT None d))
                 | None \<Rightarrow> createFolder BACKUPS (Some (nextId d))
                             (snd (createFolder APP_ROOT None d))))"
proof (cases "findFolder APP_ROOT None d")
  case None
  have "findFolder BACKUPS (Some (nextId d)) (snd (createFolder APP_ROOT None d))
          = findFolder BACKUPS (Some (nextId d)) d"
    by (simp add: findFolder_createFolder names_differ split: option.splits)
  then show ?thesis using None
    by (simp add: findOrCreateFolderChain_def createFolder_eq split: option.splits prod.splits)
next
  case (Some r)
  then show ?thesis
    by (simp add: findOrCreateFolderChain_def split: option.splits)
qed

lemma chain_second:
  assumes "findOrCreateFolderChain tok d = (id1, d1)"
  shows "findOrCreateFolderChain tok' d1 = (id1, d1)"
proof (cases "findFolder APP_ROOT None d")
  case (Some r)
  show ?thesis
  proof (cases "findFolder BACKUPS (Some r) d")
    case None
    with Some assms have "createFolder BACKUPS (Some r) d = (id1, d1)"
      by (simp add: chain_cases)
    then have "d1 = snd (createFolder BACKUPS (Some r) d)" "id1 = nextId d"
      by (simp_all add: createFolder_eq)
    then show ?thesis using Some None
      by (simp add: chain_cases findFolder_createFolder names_differ)
  next
    case (Some b)
    with \<open>findFolder APP_ROOT None d = Some r\<close> assms show ?thesis
      by (simp add: chain_cases)
  qed
next
  case None
  show ?thesis
  proof (cases "findFolder BACKUPS (Some (nextId d)) d")
    case (Some b)
    with None assms have "id1 = b" "d1 = snd (createFolder APP_ROOT None d)"
      by (simp_all add: chain_cases)
    then show ?thesis using Some None
      by (simp add: chain_cases findFolder_createFolder names_differ)
  next
    case N2: None
    let ?d' = "snd (createFolder APP_ROOT None d)"
    from N2 None assms have "createFolder BACKUPS (Some (nextId d)) ?d' = (id1, d1)"
      by (simp add: chain_cases)
    then have "d1 = snd (createFolder BACKUPS (Some (nextId d)) ?d')" "id1 = Suc (nextId d)"
      by (simp_all add: createFolder_eq nextId_createFolder)
    then show ?thesis using N2 None
      by (simp add: chain_cases findFolder_createFolder names_differ nextId_createFolder)
  qed
qed

lemma chain_created:
  assumes "findOrCreateFolderChain tok d = (id1, d1)"
  shows "files d1 = files d @ created d d1 \<and>
         length (filter (\<lambda>f. name f = APP_ROOT) (created d d1)) \<le> 1 \<and>
         length (filter (\<lambda>f. name f = BACKUPS) (created d d1)) \<le> 1 \<and>
         length (created d d1) \<le> 2"
proof -
  have "d1 = snd (findOrCreateFolderChain tok d)" using assms by simp
  then show ?thesis
    by (auto simp: chain_cases created_def files_createFolder names_differ split: option.splits)
qed

lemma chain_emptyDrive:
  "findOrCreateFolderChain tok emptyDrive =
     (2, \<lparr>files = [\<lparr>fileId = 1, name = APP_ROOT, mimeType = FOLDER, parents = [], trashed = False\<rparr>,
                   \<lparr>fileId = 2, name = BACKUPS, mimeType = FOLDER, parents = [1], trashed = False\<rparr>],
          nextId = 3\<rparr>)"
  by (simp add: findOrCreateFolderChain_def findFolder_def createFolder_def emptyDrive_def
      matches_def names_differ eval_nat_numeral)

section \<open>Facts about the upload and the archive\<close>






lemma zipContent_packBackup: "zipContent (packBackup c) = Inr (Some c)"
  by (simp add: zipContent_def packBackup_def endsWith_def)

lemma endsWith_append: "endsWith (xs @ t) t"
  by (simp add: endsWith_def)

lemma createBackup_file:
  "fst (snd (createBackup clk (Some n) initiator ls)) =
     Some \<lparr>downloadName = ''backup_sentinela_'' @ dashes (nowISO clk) @ ''.zip'',
           blob = packBackup (JSON_stringify (Some (fst (generateBackupData clk ls))))\<rparr>"
  unfolding createBackup_def Let_def
  by (cases "addLog clk initiator ''Backup Local''
                (''Backup criado e baixado. Tamanho: '' @ showNat n @ '' bytes'') ls";
      cases "addLog clk initiator ''Erro Backup'' ''Falha ao gerar arquivo ZIP local.'' ls")
     simp_all

lemma generateBackupData_storageFull:
  "fst (generateBackupData clock0 storageFull) = snapshotFull"
  by (simp add: generateBackupData_def snapshotFull_def getMaterials_def getPersonnel_def
      getCautelas_def getLogs_def getSettings_def get_item_def storageFull_def KEYS_defs
      nonEmpty_def JSON_parse_def clock0_def showInt_def showNat.simps digit_def)

lemma restoreBackup_archive:
  assumes "endsWith (fileName f) ''.zip''" and "zipFiles f = Some z"
      and "zipContent z = Inr (Some (Json content))"
  shows "restoreBackup clk initiator (FromFile f) ls
           = chainCatch (processJson clk initiator (Json content) ls)"
  using assms
  by (simp add: restoreBackup_def chainCatch_def nonEmpty_def Let_def split: outcome.splits)

section \<open>Facts about the due check\<close>

lemma due_without_stamp:
  "member backup ''lastBackupDate'' = None \<Longrightarrow> shouldBackup newDate clk backup"
  by (simp add: shouldBackup_def)

lemma never_with_stamp_not_due:
  assumes "member backup ''frequency'' = Some (JStr NEVER)"
      and "member backup ''lastBackupDate'' = Some stamp" and "truthy (Some stamp)"
  shows "\<not> shouldBackup newDate clk backup"
  using assms by (simp add: shouldBackup_def dueAfter_def BackupFrequency_defs Let_def)

section \<open>The claims\<close>

text \<open>
  C1. The claim: a policy with frequency \<^verbatim>\<open>never\<close> is never due, whatever
  \<^verbatim>\<open>lastBackupDate\<close> holds, so \<open>runAutoBackupCheck\<close> never starts an upload. The code
  tests the missing \<^verbatim>\<open>lastBackupDate\<close> before it looks at the frequency: with Drive
  configured, backups enabled, frequency \<^verbatim>\<open>never\<close> and no \<^verbatim>\<open>lastBackupDate\<close>, the check
  runs an upload cycle, which succeeds here and stamps \<^verbatim>\<open>lastBackupDate\<close>.
\<close>

theorem never_without_stamp_uploads:
  "fst (runAutoBackupCheck newDate0 clock0 True (Some ''token'') fetchOk emptyDrive storageNeverNoDate)
     = Inr (Some (Inr True)) \<and>
   member settingsNeverNoDate ''backup'' = Some (JObj [(''enabled'', JBool True), (''frequency'', JStr NEVER)]) \<and>
   lastBackupDate storageNeverNoDate = None \<and>
   lastBackupDate (snd (snd (runAutoBackupCheck newDate0 clock0 True (Some ''token'') fetchOk
                               emptyDrive storageNeverNoDate)))
     = Some (JStr ''2024-01-01T00:00:00.000Z'')"
proof -
  have gs: "getSettings storageNeverNoDate = settingsNeverNoDate"
    by (simp add: getSettings_def get_item_def storageNeverNoDate_def nonEmpty_def JSON_parse_def)
  have gl: "getLogs storageNeverNoDate = JArr []"
    by (simp add: getLogs_def get_item_def storageNeverNoDate_def emptyStorage_def KEYS_defs)
  have due: "shouldBackup newDate0 clock0 (JObj [(''enabled'', JBool True), (''frequency'', JStr NEVER)])"
    by (rule due_without_stamp) simp
  have stamp: "stampLastBackup clock0 storageNeverNoDate =
      Inr (storageNeverNoDate(SETTINGS \<mapsto> Json (JObj
     [(''institutionName'', JStr ''1 Cia''),
      (''theme'', JStr ''light''),
      (''admins'', JArr []),
      (''googleDrive'', JObj [(''clientId'', JStr ''client-1''), (''apiKey'', JStr ''key-1'')]),
      (''backup'', JObj [(''enabled'', JBool True), (''frequency'', JStr NEVER),
                         (''lastBackupDate'', JStr ''2024-01-01T00:00:00.000Z'')])])))"
    by (simp add: stampLastBackup_def gs settingsNeverNoDate_def saveSettings_def set_item_def
        JSON_stringify_def clock0_def)
  have up: "uploadBackup clock0 (Some ''token'') fetchOk AUTOMATICO emptyDrive storageNeverNoDate =
      (Inr True, snd (findOrCreateFolderChain ''token'' emptyDrive),
       storageNeverNoDate(SETTINGS \<mapsto> Json (JObj
     [(''institutionName'', JStr ''1 Cia''),
      (''theme'', JStr ''light''),
      (''admins'', JArr []),
      (''googleDrive'', JObj [(''clientId'', JStr ''client-1''), (''apiKey'', JStr ''key-1'')]),
      (''backup'', JObj [(''enabled'', JBool True), (''frequency'', JStr NEVER),
                         (''lastBackupDate'', JStr ''2024-01-01T00:00:00.000Z'')])]),
        LOGS \<mapsto> Json (JArr [newLog clock0 AUTOMATICO ''Backup Drive'' (MSG_DRIVE_SENT @ ''file-1'')])))"
    by (simp add: uploadBackup_def tryUploadBackup_def chain_emptyDrive fetchOk_def stamp
        addLog_def getLogs_upd_other gl keys_distinct[symmetric] template_def saveLogs_def
        set_item_def JSON_stringify_def)
  have run: "runAutoBackupCheck newDate0 clock0 True (Some ''token'') fetchOk emptyDrive storageNeverNoDate
      = (Inr (Some (Inr True)), snd (findOrCreateFolderChain ''token'' emptyDrive),
         storageNeverNoDate(SETTINGS \<mapsto> Json (JObj
     [(''institutionName'', JStr ''1 Cia''),
      (''theme'', JStr ''light''),
      (''admins'', JArr []),
      (''googleDrive'', JObj [(''clientId'', JStr ''client-1''), (''apiKey'', JStr ''key-1'')]),
      (''backup'', JObj [(''enabled'', JBool True), (''frequency'', JStr NEVER),
                         (''lastBackupDate'', JStr ''2024-01-01T00:00:00.000Z'')])]),
        LOGS \<mapsto> Json (JArr [newLog clock0 AUTOMATICO ''Backup Drive'' (MSG_DRIVE_SENT @ ''file-1'')])))"
    using due
    by (simp add: runAutoBackupCheck_def gs settingsNeverNoDate_def up)
  have gj: "getSettings (ls(SETTINGS \<mapsto> Json j)) = j" for ls j
    by (simp add: getSettings_def get_item_def nonEmpty_def JSON_parse_def)
  have before: "lastBackupDate storageNeverNoDate = None"
    by (simp add: lastBackupDate_def gs settingsNeverNoDate_def)
  have pol: "member settingsNeverNoDate ''backup'' =
               Some (JObj [(''enabled'', JBool True), (''frequency'', JStr NEVER)])"
    by (simp add: settingsNeverNoDate_def)
  show ?thesis
    by (simp add: run before pol)
      (simp add: lastBackupDate_def getSettings_upd_other keys_distinct gj)
qed

theorem never_without_stamp_uploads_witness:
  "fst (runAutoBackupCheck newDate0 clock0 True (Some ''token'') fetchOk emptyDrive storageNeverNoDate)
     = Inr (Some (Inr True))"
  using never_without_stamp_uploads by simp




text \<open>
  C3. The claim: a parsed document without \<^verbatim>\<open>version\<close>, \<^verbatim>\<open>materials\<close> or \<^verbatim>\<open>settings\<close>
  is rejected with an error that names the missing fields, and none of the five stored
  collections is written. The code rejects it with one fixed message,
  \<^verbatim>\<open>Estrutura do arquivo invalida.\<close> (with its accent), whatever is missing, and it
  appends the failure entry to the stored log, which is one of the five collections.
  As amended: the callback receives \<^verbatim>\<open>false\<close> and the fixed message (for the document
  \<^verbatim>\<open>null\<close>, whose property read raises, the message of the \<^verbatim>\<open>catch\<close> block); the
  materials, personnel, cautelas and settings items are left as they are; the stored log,
  a list, gets exactly the one failure entry in front.
\<close>

theorem invalid_document_rejected:
  assumes "member json ''version'' = None \<or> member json ''materials'' = None
           \<or> member json ''settings'' = None"
      and "spread (getLogs ls) = Inr logs"
  shows "outcome (processJson clk initiator (Json json) ls)
           = Called False (if json = JNull then MSG_CRITICAL else MSG_INVALID) \<and>
         store (processJson clk initiator (Json json) ls) MATERIALS = ls MATERIALS \<and>
         store (processJson clk initiator (Json json) ls) PERSONNEL = ls PERSONNEL \<and>
         store (processJson clk initiator (Json json) ls) CAUTELAS = ls CAUTELAS \<and>
         store (processJson clk initiator (Json json) ls) SETTINGS = ls SETTINGS \<and>
         getLogs (store (processJson clk initiator (Json json) ls))
           = JArr (newLog clk initiator ERRO_RESTAURACAO
                     (if json = JNull then MSG_JSON_LOG else MSG_INVALID_LOG) # logs)"
  by (simp add: processJson_invalid[OF assms] keys_distinct keys_distinct[symmetric] getLogs_upd_Json)

theorem invalid_document_rejected_witness:
  "member docNoSettings ''settings'' = None \<and>
   outcome (processJson clock0 ''Sistema'' (Json docNoSettings) emptyStorage) = Called False MSG_INVALID \<and>
   store (processJson clock0 ''Sistema'' (Json docNoSettings) emptyStorage) MATERIALS = None \<and>
   store (processJson clock0 ''Sistema'' (Json docNoSettings) emptyStorage) SETTINGS = None \<and>
   getLogs (store (processJson clock0 ''Sistema'' (Json docNoSettings) emptyStorage))
     = JArr [newLog clock0 ''Sistema'' ERRO_RESTAURACAO MSG_INVALID_LOG]"
proof -
  have a: "member docNoSettings ''version'' = None \<or> member docNoSettings ''materials'' = None
           \<or> member docNoSettings ''settings'' = None"
    by (simp add: docNoSettings_def)
  have l: "spread (getLogs emptyStorage) = Inr []"
    by (simp add: getLogs_emptyStorage)
  have n: "docNoSettings \<noteq> JNull" "member docNoSettings ''settings'' = None"
    by (simp_all add: docNoSettings_def)
  have e: "emptyStorage MATERIALS = None" "emptyStorage SETTINGS = None"
    by (simp_all add: emptyStorage_def)
  from invalid_document_rejected[OF a l, of clock0 "''Sistema''"] n e
  show ?thesis by simp
qed

theorem invalid_document_counterexample:
  "member docNoSettings ''settings'' = None \<and>
   outcome (processJson clock0 ''Sistema'' (Json docNoSettings) emptyStorage) = Called False MSG_INVALID \<and>
   \<not> includes_str MSG_INVALID ''settings'' \<and>
   \<not> includes_str MSG_INVALID_LOG ''settings'' \<and>
   emptyStorage LOGS = None \<and>
   store (processJson clock0 ''Sistema'' (Json docNoSettings) emptyStorage) LOGS
     = Some (Json (JArr [newLog clock0 ''Sistema'' ERRO_RESTAURACAO MSG_INVALID_LOG]))"
proof -
  have a: "member docNoSettings ''version'' = None \<or> member docNoSettings ''materials'' = None
           \<or> member docNoSettings ''settings'' = None"
    by (simp add: docNoSettings_def)
  have l: "spread (getLogs emptyStorage) = Inr []"
    by (simp add: getLogs_emptyStorage)
  have n: "docNoSettings \<noteq> JNull" "member docNoSettings ''settings'' = None"
    by (simp_all add: docNoSettings_def)
  have i: "\<not> includes_str MSG_INVALID ''settings''" "\<not> includes_str MSG_INVALID_LOG ''settings''"
    by (simp_all add: MSG_INVALID_def MSG_INVALID_LOG_def a_acute_def)
  have e: "emptyStorage LOGS = None"
    by (simp add: emptyStorage_def)
  show ?thesis
    using n i e by (simp add: processJson_invalid[OF a l])
qed

text \<open>
  C4. The claim: every call of \<open>restoreBackup\<close> appends exactly one log entry, on success,
  validation failure, parse failure and archive-decode failure alike. The code appends
  entries only inside \<open>processJson\<close>. An archive that holds no \<^verbatim>\<open>.json\<close> member ends in the
  \<^verbatim>\<open>catch\<close> of the promise chain: the callback receives \<^verbatim>\<open>false\<close> and
  \<^verbatim>\<open>Erro ao ler arquivo ZIP.\<close>, and the store, its log included, is as it was.
\<close>

theorem archive_failure_not_logged:
  "restoreBackup clk initiator (FromFile zipWithoutJson) ls
     = \<lparr>outcome = Called False MSG_ZIP_ERROR, warnings = [], store = ls\<rparr>"
  by (simp add: restoreBackup_def zipWithoutJson_def endsWith_def zipContent_def)

theorem archive_failure_not_logged_witness:
  "outcome (restoreBackup clock0 ''Sistema'' (FromFile zipWithoutJson) emptyStorage)
     = Called False ''Erro ao ler arquivo ZIP.'' \<and>
   getLogs (store (restoreBackup clock0 ''Sistema'' (FromFile zipWithoutJson) emptyStorage))
     = getLogs emptyStorage"
  by (simp add: archive_failure_not_logged MSG_ZIP_ERROR_def)

text \<open>
  C5. For every state of the Drive, resolving the folder chain twice in a row returns the
  same folder id both times; the second run leaves the Drive as the first left it, and
  the two runs together create at most one folder named \<^verbatim>\<open>App_Controle_Armamento\<close> and
  at most one named \<^verbatim>\<open>Backups\<close>, and nothing else.
\<close>

theorem folder_chain_idempotent:
  assumes "findOrCreateFolderChain accessToken d = (id1, d1)"
      and "findOrCreateFolderChain accessToken d1 = (id2, d2)"
  shows "id2 = id1 \<and> d2 = d1 \<and>
         files d2 = files d @ created d d2 \<and>
         length (filter (\<lambda>f. name f = APP_ROOT) (created d d2)) \<le> 1 \<and>
         length (filter (\<lambda>f. name f = BACKUPS) (created d d2)) \<le> 1 \<and>
         length (created d d2) \<le> 2"
proof -
  from chain_second[OF assms(1), of accessToken] assms(2)
  have same: "id2 = id1" "d2 = d1" by simp_all
  with chain_created[OF assms(1)] show ?thesis by simp
qed

theorem folder_chain_idempotent_witness:
  "findOrCreateFolderChain ''token'' emptyDrive =
     (2, \<lparr>files = [\<lparr>fileId = 1, name = APP_ROOT, mimeType = FOLDER, parents = [], trashed = False\<rparr>,
                   \<lparr>fileId = 2, name = BACKUPS, mimeType = FOLDER, parents = [1], trashed = False\<rparr>],
          nextId = 3\<rparr>) \<and>
   findOrCreateFolderChain ''token''
       \<lparr>files = [\<lparr>fileId = 1, name = APP_ROOT, mimeType = FOLDER, parents = [], trashed = False\<rparr>,
                 \<lparr>fileId = 2, name = BACKUPS, mimeType = FOLDER, parents = [1], trashed = False\<rparr>],
        nextId = 3\<rparr> =
     (2, \<lparr>files = [\<lparr>fileId = 1, name = APP_ROOT, mimeType = FOLDER, parents = [], trashed = False\<rparr>,
                   \<lparr>fileId = 2, name = BACKUPS, mimeType = FOLDER, parents = [1], trashed = False\<rparr>],
          nextId = 3\<rparr>)"
proof -
  let ?d1 = "\<lparr>files = [\<lparr>fileId = 1, name = APP_ROOT, mimeType = FOLDER, parents = [], trashed = False\<rparr>,
                   \<lparr>fileId = 2, name = BACKUPS, mimeType = FOLDER, parents = [1], trashed = False\<rparr>],
          nextId = 3\<rparr>"
  obtain id2 d2 where second: "findOrCreateFolderChain ''token'' ?d1 = (id2, d2)"
    by (cases "findOrCreateFolderChain ''token'' ?d1") blast
  from folder_chain_idempotent[OF chain_emptyDrive second] second
  show ?thesis by (simp add: chain_emptyDrive)
qed

text \<open>
  C6. Decoding what was encoded gives the serialized text back. Let \<open>file\<close> be what
  \<open>createBackup\<close> downloads and let \<open>f\<close> be that download as it comes back to
  \<open>restoreBackup\<close>: a \<^verbatim>\<open>File\<close> of the same name in which JSZip finds the members that were
  packed. Then the member the archive branch picks is exactly the text
  \<^verbatim>\<open>JSON.stringify\<close> made of the snapshot, and \<open>restoreBackup\<close> on \<open>f\<close> does what
  \<open>processJson\<close> does on that text, inside the promise chain.
\<close>

theorem archive_round_trip:
  assumes "fst (snd (createBackup clk (Some n) initiator ls)) = Some file"
      and "fileName f = downloadName file"
      and "zipFiles f = Some (blob file)"
  shows "zipContent (blob file)
           = Inr (Some (JSON_stringify (Some (fst (generateBackupData clk ls))))) \<and>
         restoreBackup clk' initiator' (FromFile f) ls'
           = chainCatch (processJson clk' initiator'
                           (JSON_stringify (Some (fst (generateBackupData clk ls)))) ls')"
proof -
  from assms(1) have fl: "file = \<lparr>downloadName = ''backup_sentinela_'' @ dashes (nowISO clk) @ ''.zip'',
           blob = packBackup (JSON_stringify (Some (fst (generateBackupData clk ls))))\<rparr>"
    by (simp add: createBackup_file)
  have "endsWith ((''backup_sentinela_'' @ dashes (nowISO clk)) @ ''.zip'') ''.zip''"
    by (rule endsWith_append)
  then have name: "endsWith (fileName f) ''.zip''"
    using assms(2) fl by (simp only: append_assoc download.simps)
  have z: "zipFiles f = Some (packBackup (Json (fst (generateBackupData clk ls))))"
    using assms(3) fl by (simp add: JSON_stringify_def)
  have c: "zipContent (packBackup (Json (fst (generateBackupData clk ls))))
             = Inr (Some (Json (fst (generateBackupData clk ls))))"
    by (rule zipContent_packBackup)
  from restoreBackup_archive[OF name z c, of clk' initiator' ls'] c fl
  show ?thesis
    by (simp add: JSON_stringify_def)
qed

theorem archive_round_trip_witness:
  "fst (snd (createBackup clock0 (Some 321) ''Sistema'' storageFull))
     = Some \<lparr>downloadName = ''backup_sentinela_2024-01-01T00-00-00-000Z.zip'',
             blob = [(''backup_sentinela.json'', Json snapshotFull)]\<rparr> \<and>
   zipFiles downloadedFull = Some [(''backup_sentinela.json'', Json snapshotFull)] \<and>
   zipContent [(''backup_sentinela.json'', Json snapshotFull)] = Inr (Some (Json snapshotFull)) \<and>
   restoreBackup clock0 ''Sistema'' (FromFile downloadedFull) emptyStorage
     = chainCatch (processJson clock0 ''Sistema'' (Json snapshotFull) emptyStorage) \<and>
   outcome (restoreBackup clock0 ''Sistema'' (FromFile downloadedFull) emptyStorage)
     = Called True MSG_RESTORED \<and>
   getMaterials (store (restoreBackup clock0 ''Sistema'' (FromFile downloadedFull) emptyStorage))
     = getMaterials storageFull \<and>
   getSettings (store (restoreBackup clock0 ''Sistema'' (FromFile downloadedFull) emptyStorage))
     = getSettings storageFull"
proof -
  have iso: "dashes (nowISO clock0) = ''2024-01-01T00-00-00-000Z''"
    by (simp add: clock0_def dashes_def)
  have a: "fst (snd (createBackup clock0 (Some 321) ''Sistema'' storageFull))
     = Some \<lparr>downloadName = ''backup_sentinela_2024-01-01T00-00-00-000Z.zip'',
             blob = [(''backup_sentinela.json'', Json snapshotFull)]\<rparr>"
    by (simp add: createBackup_file generateBackupData_storageFull packBackup_def
        JSON_stringify_def iso)
  have b: "fileName downloadedFull = downloadName \<lparr>downloadName = ''backup_sentinela_2024-01-01T00-00-00-000Z.zip'',
             blob = [(''backup_sentinela.json'', Json snapshotFull)]\<rparr>"
          "zipFiles downloadedFull = Some (blob \<lparr>downloadName = ''backup_sentinela_2024-01-01T00-00-00-000Z.zip'',
             blob = [(''backup_sentinela.json'', Json snapshotFull)]\<rparr>)"
    by (simp_all add: downloadedFull_def)
  note rt = archive_round_trip[OF a b, of clock0 "''Sistema''" emptyStorage]
  have v: "truthy (member snapshotFull ''version'')" "truthy (member snapshotFull ''materials'')"
          "truthy (member snapshotFull ''settings'')"
    by (simp_all add: snapshotFull_def settings1_def)
  have risk: "lockoutRisk (member snapshotFull ''settings'') emptyStorage = Inr False"
    by (simp add: lockoutRisk_def snapshotFull_def settings1_def showNat.simps digit_def)
  have tv: "template (member snapshotFull ''version'') = Inr ''1.1''"
    by (simp add: template_def snapshotFull_def)
  have l: "incomingLogs snapshotFull = Inr [log1]"
    by (simp add: incomingLogs_def snapshotFull_def)
  note pj = processJson_restores[OF v risk tv l, of clock0 "''Sistema''"]
  have m: "member snapshotFull ''materials'' = Some (JArr [material1])"
          "member snapshotFull ''settings'' = Some settings1"
    by (simp_all add: snapshotFull_def)
  have g: "getMaterials storageFull = JArr [material1]" "getSettings storageFull = settings1"
    by (simp_all add: getMaterials_def getSettings_def get_item_def storageFull_def KEYS_defs
        nonEmpty_def JSON_parse_def)
  have gm: "getMaterials (f(MATERIALS \<mapsto> Json j, PERSONNEL \<mapsto> p, CAUTELAS \<mapsto> c,
                          SETTINGS \<mapsto> s, LOGS \<mapsto> l)) = j" for f j p c s l
    by (simp add: getMaterials_def get_item_def keys_distinct nonEmpty_def JSON_parse_def)
  have gs: "getSettings (f(MATERIALS \<mapsto> j, PERSONNEL \<mapsto> p, CAUTELAS \<mapsto> c,
                          SETTINGS \<mapsto> Json s, LOGS \<mapsto> l)) = s" for f j p c s l
    by (simp add: getSettings_def get_item_def keys_distinct keys_distinct[symmetric]
        nonEmpty_def JSON_parse_def)
  from rt have r: "restoreBackup clock0 ''Sistema'' (FromFile downloadedFull) emptyStorage
     = chainCatch (processJson clock0 ''Sistema'' (Json snapshotFull) emptyStorage)"
    by (simp add: generateBackupData_storageFull JSON_stringify_def)
  have z: "zipContent [(''backup_sentinela.json'', Json snapshotFull)] = Inr (Some (Json snapshotFull))"
    using rt by (simp add: generateBackupData_storageFull JSON_stringify_def)
  show ?thesis
    using a z r
    by (simp add: downloadedFull_def)
      (simp add: pj chainCatch_def m g gm gs JSON_stringify_def)
qed

text \<open>
  C7. With a \<^verbatim>\<open>lastBackupDate\<close> that is present and a valid date, a daily policy is not
  due 23 hours after it and due 25 hours after it, and it is due exactly from 24 hours on;
  a weekly policy is due exactly from 168 hours on and a monthly one from 720 hours on.
  Elapsed time is in milliseconds, 3600000 to the hour.
\<close>

theorem due_check_thresholds:
  assumes "member backup ''lastBackupDate'' = Some stamp" and "truthy (Some stamp)"
      and "newDate stamp = Some t"
  shows "(member backup ''frequency'' = Some (JStr DAILY) \<longrightarrow>
            (nowMillis clk - t = 23 * 3600000 \<longrightarrow> \<not> shouldBackup newDate clk backup) \<and>
            (nowMillis clk - t = 25 * 3600000 \<longrightarrow> shouldBackup newDate clk backup) \<and>
            (shouldBackup newDate clk backup \<longleftrightarrow> nowMillis clk - t \<ge> 24 * 3600000)) \<and>
         (member backup ''frequency'' = Some (JStr WEEKLY) \<longrightarrow>
            (shouldBackup newDate clk backup \<longleftrightarrow> nowMillis clk - t \<ge> 168 * 3600000)) \<and>
         (member backup ''frequency'' = Some (JStr MONTHLY) \<longrightarrow>
            (shouldBackup newDate clk backup \<longleftrightarrow> nowMillis clk - t \<ge> 720 * 3600000))"
  using assms
  by (auto simp: shouldBackup_def dueAfter_def BackupFrequency_defs Let_def)

theorem due_check_thresholds_witness:
  "\<not> shouldBackup newDate0 clock0 (backupPolicy DAILY ''2023-12-31T01:00:00.000Z'') \<and>
   shouldBackup newDate0 clock0 (backupPolicy DAILY ''2023-12-30T23:00:00.000Z'') \<and>
   shouldBackup newDate0 clock0 (backupPolicy WEEKLY ''2023-12-25T00:00:00.000Z'') \<and>
   shouldBackup newDate0 clock0 (backupPolicy MONTHLY ''2023-12-02T00:00:00.000Z'')"
proof -
  have m: "member (backupPolicy f s) ''lastBackupDate'' = Some (JStr s)"
          "member (backupPolicy f s) ''frequency'' = Some (JStr f)" for f s
    by (simp_all add: backupPolicy_def)
  have t: "truthy (Some (JStr ''2023-12-31T01:00:00.000Z''))"
          "truthy (Some (JStr ''2023-12-30T23:00:00.000Z''))"
          "truthy (Some (JStr ''2023-12-25T00:00:00.000Z''))"
          "truthy (Some (JStr ''2023-12-02T00:00:00.000Z''))"
    by simp_all
  have d: "newDate0 (JStr ''2023-12-31T01:00:00.000Z'') = Some 1703984400000"
          "newDate0 (JStr ''2023-12-30T23:00:00.000Z'') = Some 1703977200000"
          "newDate0 (JStr ''2023-12-25T00:00:00.000Z'') = Some 1703462400000"
          "newDate0 (JStr ''2023-12-02T00:00:00.000Z'') = Some 1701475200000"
    by (simp_all add: newDate0_def)
  have n: "nowMillis clock0 = 1704067200000"
    by (simp add: clock0_def)
  from due_check_thresholds[where newDate = newDate0, OF m(1) t(1) d(1), of DAILY clock0]
       due_check_thresholds[where newDate = newDate0, OF m(1) t(2) d(2), of DAILY clock0]
       due_check_thresholds[where newDate = newDate0, OF m(1) t(3) d(3), of WEEKLY clock0]
       due_check_thresholds[where newDate = newDate0, OF m(1) t(4) d(4), of MONTHLY clock0]
  show ?thesis
    by (simp add: m n)
qed

text \<open>
  C8. The claim: every document that passes the structural check, whose settings carry an
  empty or no \<^verbatim>\<open>admins\<close> list while the stored \<^verbatim>\<open>admins\<close> list is empty too, is restored in
  full and reported as a success, the lockout check only warning. The code does warn and
  does write the five items, but for a document with \<^verbatim>\<open>logs: null\<close> it never reports:
  \<open>addLog\<close> reads the log it has just saved and raises on spreading it, in the \<^verbatim>\<open>try\<close>
  block and once more in the \<^verbatim>\<open>catch\<close> block, so the exception leaves \<open>processJson\<close> and
  the callback is never invoked. The store is left with the log \<^verbatim>\<open>null\<close>.
\<close>

theorem lockout_restore_never_reports:
  "truthy (member docNoAdminsNullLogs ''version'') \<and>
   truthy (member docNoAdminsNullLogs ''materials'') \<and>
   truthy (member docNoAdminsNullLogs ''settings'') \<and>
   optProp (member docNoAdminsNullLogs ''settings'') ''admins'' = Some (JArr []) \<and>
   member (getSettings emptyStorage) ''admins'' = Some (JArr []) \<and>
   member docNoAdminsNullLogs ''logs'' = Some JNull \<and>
   outcome (processJson clock0 ''Sistema'' (Json docNoAdminsNullLogs) emptyStorage)
     = Escaped TypeError \<and>
   warnings (processJson clock0 ''Sistema'' (Json docNoAdminsNullLogs) emptyStorage)
     = [MSG_NO_ADMINS] \<and>
   store (processJson clock0 ''Sistema'' (Json docNoAdminsNullLogs) emptyStorage) MATERIALS
     = Some (Json (JArr [])) \<and>
   store (processJson clock0 ''Sistema'' (Json docNoAdminsNullLogs) emptyStorage) SETTINGS
     = Some (Json (JObj [(''admins'', JArr [])])) \<and>
   store (processJson clock0 ''Sistema'' (Json docNoAdminsNullLogs) emptyStorage) LOGS
     = Some (Json JNull)"
proof -
  have v: "truthy (member docNoAdminsNullLogs ''version'')"
          "truthy (member docNoAdminsNullLogs ''materials'')"
          "truthy (member docNoAdminsNullLogs ''settings'')"
    by (simp_all add: docNoAdminsNullLogs_def)
  have s: "member docNoAdminsNullLogs ''settings'' = Some (JObj [(''admins'', JArr [])])"
          "member docNoAdminsNullLogs ''materials'' = Some (JArr [])"
    by (simp_all add: docNoAdminsNullLogs_def)
  have c: "member (getSettings emptyStorage) ''admins'' = Some (JArr [])"
    by (simp add: getSettings_emptyStorage defaultSettings_def)
  have risk: "lockoutRisk (member docNoAdminsNullLogs ''settings'') emptyStorage = Inr True"
    unfolding s by (rule lockoutRisk_warns) (simp_all add: c)
  have l: "incomingLogs docNoAdminsNullLogs = Inl TypeError"
          "member docNoAdminsNullLogs ''logs'' = Some JNull"
    by (simp_all add: incomingLogs_def docNoAdminsNullLogs_def)
  show ?thesis
    using v c l(2)
    by (simp add: processJson_crashes[OF v risk l(1)] s JSON_stringify_def keys_distinct
        keys_distinct[symmetric])
qed

theorem lockout_restore_never_reports_witness:
  "outcome (processJson clock0 ''Sistema'' (Json docNoAdminsNullLogs) emptyStorage)
     = Escaped TypeError"
  using lockout_restore_never_reports by simp

text \<open>
  With a \<^verbatim>\<open>logs\<close> field that is absent or an array and a version that prints, the
  advisory does not stand in the way: the warning is printed, the five items are
  written and the callback receives \<^verbatim>\<open>true\<close>.
\<close>

lemma lockout_advisory_only_warns:
  assumes "truthy (member json ''version'')" and "truthy (member json ''materials'')"
      and "member json ''settings'' = Some settings" and "truthy (Some settings)"
      and "member settings ''admins'' = None \<or> member settings ''admins'' = Some (JArr [])"
      and "member (getSettings ls) ''admins'' = Some (JArr [])"
      and "template (member json ''version'') = Inr versionText"
      and "listedLogs json = Some logs"
  shows "processJson clk initiator (Json json) ls =
           \<lparr>outcome = Called True MSG_RESTORED,
            warnings = [MSG_NO_ADMINS],
            store = ls(MATERIALS \<mapsto> JSON_stringify (member json ''materials''),
                       PERSONNEL \<mapsto> JSON_stringify (member json ''personnel''),
                       CAUTELAS \<mapsto> JSON_stringify (member json ''cautelas''),
                       SETTINGS \<mapsto> Json settings,
                       LOGS \<mapsto> Json (JArr (newLog clk initiator RESTAURACAO
                                             (MSG_RESTORED_LOG @ versionText) # logs)))\<rparr>"
proof -
  have s: "truthy (member json ''settings'')" using assms(3,4) by simp
  have risk: "lockoutRisk (member json ''settings'') ls = Inr True"
    using lockoutRisk_warns[OF assms(4,5,6)] assms(3) by simp
  show ?thesis
    using processJson_restores[OF assms(1,2) s risk assms(7) listedLogs_incoming[OF assms(8)],
            of clk initiator] assms(3)
    by (simp add: JSON_stringify_def)
qed

text \<open>
  C9. \<open>generateBackupData\<close> returns a document that holds, under \<^verbatim>\<open>materials\<close>,
  \<^verbatim>\<open>personnel\<close>, \<^verbatim>\<open>cautelas\<close>, \<^verbatim>\<open>logs\<close> and \<^verbatim>\<open>settings\<close>, what the five items of the store
  parse to (the empty list, or the default settings, for an item that is missing, empty
  or not JSON), then the time stamp, the version tag \<^verbatim>\<open>1.1\<close> and the integrity marker,
  the clock's milliseconds as text; and it leaves the store as it found it.
\<close>

theorem snapshot_is_a_pure_read:
  "generateBackupData clk ls =
     (JObj
        [(''materials'',
            (case ls ''sentinela_materials'' of Some (Json v) \<Rightarrow> v | _ \<Rightarrow> JArr [])),
         (''personnel'',
            (case ls ''sentinela_personnel'' of Some (Json v) \<Rightarrow> v | _ \<Rightarrow> JArr [])),
         (''cautelas'',
            (case ls ''sentinela_cautelas'' of Some (Json v) \<Rightarrow> v | _ \<Rightarrow> JArr [])),
         (''logs'',
            (case ls ''sentinela_logs'' of Some (Json v) \<Rightarrow> v | _ \<Rightarrow> JArr [])),
         (''settings'',
            (case ls ''sentinela_settings'' of Some (Json v) \<Rightarrow> v | _ \<Rightarrow> defaultSettings)),
         (''timestamp'', JStr (nowISO clk)),
         (''version'', JStr ''1.1''),
         (''integrityHash'', JStr (showInt (nowMillis clk)))],
      ls)"
proof -
  have g: "get_item k dflt ls = (case ls k of Some (Json v) \<Rightarrow> v | _ \<Rightarrow> dflt)" for k dflt
    by (simp add: get_item_def nonEmpty_def JSON_parse_def split: option.splits rawtext.splits)
  show ?thesis
    by (simp add: generateBackupData_def getMaterials_def getPersonnel_def getCautelas_def
        getLogs_def getSettings_def g KEYS_defs)
qed

theorem snapshot_is_a_pure_read_witness:
  "generateBackupData clock0 storageFull =
     (JObj
        [(''materials'', JArr [material1]),
         (''personnel'', JArr [person1]),
         (''cautelas'', JArr [cautela1]),
         (''logs'', JArr [log1]),
         (''settings'', settings1),
         (''timestamp'', JStr ''2024-01-01T00:00:00.000Z''),
         (''version'', JStr ''1.1''),
         (''integrityHash'', JStr ''1704067200000'')],
      storageFull) \<and>
   fst (generateBackupData clock0 emptyStorage) =
     JObj
        [(''materials'', JArr []),
         (''personnel'', JArr []),
         (''cautelas'', JArr []),
         (''logs'', JArr []),
         (''settings'', defaultSettings),
         (''timestamp'', JStr ''2024-01-01T00:00:00.000Z''),
         (''version'', JStr ''1.1''),
         (''integrityHash'', JStr ''1704067200000'')]"
proof -
  have c: "showInt (nowMillis clock0) = ''1704067200000''" "nowISO clock0 = ''2024-01-01T00:00:00.000Z''"
    by (simp_all add: clock0_def showInt_def showNat.simps digit_def)
  have f: "storageFull ''sentinela_materials'' = Some (Json (JArr [material1]))"
          "storageFull ''sentinela_personnel'' = Some (Json (JArr [person1]))"
          "storageFull ''sentinela_cautelas'' = Some (Json (JArr [cautela1]))"
          "storageFull ''sentinela_logs'' = Some (Json (JArr [log1]))"
          "storageFull ''sentinela_settings'' = Some (Json settings1)"
    by (simp_all add: storageFull_def)
  have e: "emptyStorage k = None" for k
    by (simp add: emptyStorage_def)
  show ?thesis
    by (simp add: snapshot_is_a_pure_read[of clock0 storageFull]
        snapshot_is_a_pure_read[of clock0 emptyStorage] c f e)
qed




end
